theory Spec2Isabelle
  imports Complex_Main "HOL-Library.AList"
begin

section \<open>Text primitives of the Python source\<close>

text \<open>
  Python \<open>str\<close> values are modelled as \<open>string\<close>, one \<open>char\<close> per code point, for
  text whose code points are below 256. \<open>str.lower\<close> maps \<open>A..Z\<close> and the upper-case
  letters of the Latin-1 block (0xC0..0xDE without 0xD7) to the letter 32 places later;
  \<open>str.strip\<close> removes the code points for which \<open>str.isspace\<close> holds (0x09..0x0D,
  0x1C..0x20, 0x85, 0xA0) from both ends.
\<close>

definition py_lower_char :: "char \<Rightarrow> char" where
  "py_lower_char c =
     (let n = of_char c :: nat in
      if (65 \<le> n \<and> n \<le> 90) \<or> (192 \<le> n \<and> n \<le> 222 \<and> n \<noteq> 215)
      then char_of (n + 32) else c)"

definition py_lower :: "string \<Rightarrow> string" where
  "py_lower s = map py_lower_char s"

definition py_isspace :: "char \<Rightarrow> bool" where
  "py_isspace c =
     (let n = of_char c :: nat in
      (9 \<le> n \<and> n \<le> 13) \<or> (28 \<le> n \<and> n \<le> 32) \<or> n = 133 \<or> n = 160)"

definition py_strip :: "string \<Rightarrow> string" where
  "py_strip s = rev (dropWhile py_isspace (rev (dropWhile py_isspace s)))"

text \<open>\<open>sub in s\<close> on strings: \<open>sub\<close> occurs in \<open>s\<close> as a contiguous run.\<close>

fun py_in :: "string \<Rightarrow> string \<Rightarrow> bool" where
  "py_in sub [] = (sub = [])"
| "py_in sub (c # cs) = (take (length sub) (c # cs) = sub \<or> py_in sub cs)"

text \<open>
  \<open>s.replace(old, new)\<close> for a non-empty \<open>old\<close>: occurrences are replaced from the left
  and do not overlap. The counter is the number of characters of the current
  occurrence still to be skipped.
\<close>

fun replace_from :: "string \<Rightarrow> string \<Rightarrow> nat \<Rightarrow> string \<Rightarrow> string" where
  "replace_from old new k [] = []"
| "replace_from old new k (c # cs) =
     (if 0 < k then replace_from old new (k - 1) cs
      else if take (length old) (c # cs) = old
           then new @ replace_from old new (length old - 1) cs
           else c # replace_from old new 0 cs)"

definition py_replace :: "string \<Rightarrow> string \<Rightarrow> string \<Rightarrow> string" where
  "py_replace old new s = replace_from old new 0 s"

section \<open>The regular expressions of \<open>FORBIDDEN_ANSWER_PATTERNS\<close>\<close>

text \<open>
  The pattern language the source uses: literal characters, the escape \<open>\\\<close> followed
  by a character, and the postfix \<open>?\<close> on one character. Python's \<open>re\<close> reads the
  escape followed by \<open>b\<close> as the word-boundary assertion and the escape followed by a
  second backslash as one literal backslash.
\<close>

definition bs :: char where
  "bs = CHR 0x5C"

datatype tok = TChar char | TBnd | TQuest

datatype rx = Lit char | Opt char | Bnd

fun re_tokens :: "string \<Rightarrow> tok list" where
  "re_tokens [] = []"
| "re_tokens [c] = [if c = CHR ''?'' then TQuest else TChar c]"
| "re_tokens (c # d # ds) =
     (if c = bs then (if d = CHR ''b'' then TBnd else TChar d) # re_tokens ds
      else (if c = CHR ''?'' then TQuest else TChar c) # re_tokens (d # ds))"

fun re_atoms :: "tok list \<Rightarrow> rx list" where
  "re_atoms [] = []"
| "re_atoms (TChar c # TQuest # ts) = Opt c # re_atoms ts"
| "re_atoms (TChar c # ts) = Lit c # re_atoms ts"
| "re_atoms (TBnd # ts) = Bnd # re_atoms ts"
| "re_atoms (TQuest # ts) = re_atoms ts"

definition re_compile :: "string \<Rightarrow> rx list" where
  "re_compile p = re_atoms (re_tokens p)"

text \<open>
  A word character is one for which \<open>str.isalnum\<close> holds, or the underscore. Under
  \<open>re.IGNORECASE\<close> a literal matches a character with the same lower-case form.
\<close>

definition is_word_char :: "char \<Rightarrow> bool" where
  "is_word_char c =
     (let n = of_char c :: nat in
      (48 \<le> n \<and> n \<le> 57) \<or> (65 \<le> n \<and> n \<le> 90) \<or> n = 95 \<or> (97 \<le> n \<and> n \<le> 122)
      \<or> n = 170 \<or> n = 178 \<or> n = 179 \<or> n = 181 \<or> n = 185 \<or> n = 186
      \<or> (188 \<le> n \<and> n \<le> 190) \<or> (192 \<le> n \<and> n \<le> 214) \<or> (216 \<le> n \<and> n \<le> 246)
      \<or> 248 \<le> n)"

definition ci_eq :: "char \<Rightarrow> char \<Rightarrow> bool" where
  "ci_eq c x = (py_lower_char c = py_lower_char x)"

definition at_boundary :: "char option \<Rightarrow> string \<Rightarrow> bool" where
  "at_boundary prev s =
     ((case prev of None \<Rightarrow> False | Some p \<Rightarrow> is_word_char p)
      \<noteq> (case s of [] \<Rightarrow> False | x # _ \<Rightarrow> is_word_char x))"

text \<open>
  \<open>rx_match r prev s\<close>: the pattern matches a prefix of \<open>s\<close>, where \<open>prev\<close> is the
  character before \<open>s\<close> in the searched text.
\<close>

fun rx_match :: "rx list \<Rightarrow> char option \<Rightarrow> string \<Rightarrow> bool" where
  "rx_match [] prev s = True"
| "rx_match (Lit c # r) prev [] = False"
| "rx_match (Lit c # r) prev (x # xs) = (ci_eq c x \<and> rx_match r (Some x) xs)"
| "rx_match (Opt c # r) prev [] = rx_match r prev []"
| "rx_match (Opt c # r) prev (x # xs) =
     ((ci_eq c x \<and> rx_match r (Some x) xs) \<or> rx_match r prev (x # xs))"
| "rx_match (Bnd # r) prev s = (at_boundary prev s \<and> rx_match r prev s)"

fun search_from :: "rx list \<Rightarrow> char option \<Rightarrow> string \<Rightarrow> bool" where
  "search_from r prev [] = rx_match r prev []"
| "search_from r prev (x # xs) = (rx_match r prev (x # xs) \<or> search_from r (Some x) xs)"

definition re_search :: "string \<Rightarrow> string \<Rightarrow> bool" where
  "re_search pat s = search_from (re_compile pat) None s"

text \<open>
  The source writes each pattern as a raw string with two backslashes before and after
  the phrase (\<open>r"\\bnot provided\\b"\<close>), so the pattern text holds both of them.
\<close>

definition FORBIDDEN_ANSWER_PATTERNS :: "string list" where
  "FORBIDDEN_ANSWER_PATTERNS =
     [ [bs, bs] @ ''bnot provided'' @ [bs, bs] @ ''b'',
       [bs, bs] @ ''bi don't know'' @ [bs, bs] @ ''b'',
       [bs, bs] @ ''bdo not know'' @ [bs, bs] @ ''b'',
       [bs, bs] @ ''bn/?a'' @ [bs, bs] @ ''b'',
       [bs, bs] @ ''bfree text input'' @ [bs, bs] @ ''b'',
       [bs, bs] @ ''bno additional information'' @ [bs, bs] @ ''b'',
       [bs, bs] @ ''bnothing to add'' @ [bs, bs] @ ''b'',
       [bs, bs] @ ''bnot sure'' @ [bs, bs] @ ''b'' ]"

definition is_forbidden_answer :: "string \<Rightarrow> bool" where
  "is_forbidden_answer ans =
     (let s = py_lower (py_strip ans) in
      if s = [] then True
      else list_ex (\<lambda>pat. re_search pat s) FORBIDDEN_ANSWER_PATTERNS)"

section \<open>Intent policy\<close>

definition ALLOWED_INTENTS :: "string list" where
  "ALLOWED_INTENTS =
     [ ''personal.firstName'', ''personal.lastName'', ''personal.email'', ''personal.phone'',
       ''personal.linkedin'', ''personal.city'', ''personal.state'', ''personal.country'',
       ''personal.desiredSalary'', ''personal.additionalInfo'',
       ''experience.whyFit'', ''experience.summary'',
       ''workAuthorization.authorizedUS'', ''workAuthorization.needsSponsorship'',
       ''eeo.gender'', ''eeo.race'', ''eeo.veteran'', ''eeo.disability'',
       ''unknown'' ]"

definition INTENT_NORMALIZATION :: "(string \<times> string) list" where
  "INTENT_NORMALIZATION =
     [ (''experience'', ''experience.summary''),
       (''why_fit'', ''experience.whyFit''),
       (''whyfit'', ''experience.whyFit''),
       (''personal.additionalinfo'', ''personal.additionalInfo''),
       (''additionalinfo'', ''personal.additionalInfo''),
       (''salary'', ''personal.desiredSalary''),
       (''personal.salary'', ''personal.desiredSalary''),
       (''personal.desiredsalary'', ''personal.desiredSalary'') ]"

text \<open>
  \<open>_normalize_intent(intent, question)\<close>. The argument \<open>None\<close> is Python's \<open>None\<close>;
  \<open>if not intent\<close> turns it, like the empty string, into \<open>""\<close>.
\<close>

definition normalize_intent :: "string option \<Rightarrow> string \<Rightarrow> string" where
  "normalize_intent intent question =
     (let intent1 = (case intent of None \<Rightarrow> [] | Some i \<Rightarrow> i);
          raw = py_strip intent1;
          key = py_replace ''_'' [] (py_replace ''-'' [] (py_replace '' '' [] (py_lower raw)))
      in if raw \<in> set ALLOWED_INTENTS then raw
         else case map_of INTENT_NORMALIZATION key of
           Some v \<Rightarrow> v
         | None \<Rightarrow>
            (let q = py_lower question in
             if py_in ''salary'' q \<or> py_in ''compensation'' q \<or> py_in ''pay'' q
             then ''personal.desiredSalary''
             else if py_in ''anything else'' q \<or> py_in ''additional'' q \<or> py_in ''know about you'' q
             then ''personal.additionalInfo''
             else if py_in ''strong fit'' q \<or> py_in ''why you'' q \<or> py_in ''why should we hire'' q
             then ''experience.whyFit''
             else ''unknown''))"

section \<open>Answer repair\<close>

text \<open>
  The four fallback sentences. The source writes their apostrophes as the code point
  U+2019, which is outside the modelled range; it is written as \<open>'\<close> here. No pattern
  and no keyword of the source contains either character.
\<close>

definition SALARY_FALLBACK :: string where
  "SALARY_FALLBACK =
     ''Open to a competitive salary aligned with the role scope, market standards, and total compensation.''"

definition ADDITIONAL_FALLBACK :: string where
  "ADDITIONAL_FALLBACK =
     ''I'm genuinely excited about this opportunity and would welcome the chance to discuss how I can ''
     @ ''contribute. I'm quick to learn, dependable, and committed to delivering high-quality work.''"

definition WHYFIT_FALLBACK :: string where
  "WHYFIT_FALLBACK =
     ''I'm a strong fit because I bring consistent execution, clear communication, and a practical mindset. ''
     @ ''I focus on understanding requirements quickly, delivering reliable outcomes, and collaborating well ''
     @ ''with teams to move work forward efficiently.''"

definition GENERIC_FALLBACK :: string where
  "GENERIC_FALLBACK =
     ''I'm excited about this role and confident I can add value through strong ownership, adaptability, and ''
     @ ''a results-driven approach. I'm ready to contribute from day one.''"

definition pref :: "string list" where
  "pref = [''Prefer not to say'', ''Decline to answer'', ''Decline to state'', ''Prefer not to disclose'']"

text \<open>
  The nested loop \<open>for p in pref: for opt in options\<close>: the outer loop runs over the
  preference list, the inner one over the options, and the first hit returns.
\<close>

definition pref_match :: "string \<Rightarrow> string \<Rightarrow> bool" where
  "pref_match opt p = (py_lower (py_strip opt) = py_lower p)"

fun find_pref :: "string list \<Rightarrow> string list \<Rightarrow> string option" where
  "find_pref [] opts = None"
| "find_pref (p # ps) opts =
     (case find (\<lambda>opt. pref_match opt p) opts of
        Some opt \<Rightarrow> Some opt
      | None \<Rightarrow> find_pref ps opts)"

text \<open>\<open>if options\<close>: the list is neither \<open>None\<close> nor empty.\<close>

definition truthy_list :: "'a list option \<Rightarrow> bool" where
  "truthy_list xs = (case xs of None \<Rightarrow> False | Some [] \<Rightarrow> False | Some (_ # _) \<Rightarrow> True)"

definition repair_answer :: "string \<Rightarrow> string list option \<Rightarrow> string \<Rightarrow> string" where
  "repair_answer question options intent =
     (let q = py_lower question in
      case options of
        Some (o1 # os) \<Rightarrow>
          (case find_pref pref (o1 # os) of Some opt \<Rightarrow> opt | None \<Rightarrow> o1)
      | _ \<Rightarrow>
          if intent = ''personal.desiredSalary'' \<or> py_in ''salary'' q \<or> py_in ''compensation'' q
          then SALARY_FALLBACK
          else if intent = ''personal.additionalInfo'' \<or> py_in ''anything else'' q \<or> py_in ''additional'' q
          then ADDITIONAL_FALLBACK
          else if intent = ''experience.whyFit'' \<or> py_in ''strong fit'' q \<or> py_in ''why should'' q
          then WHYFIT_FALLBACK
          else GENERIC_FALLBACK)"

section \<open>Python values: floats, JSON data, exceptions\<close>

text \<open>
  A Python \<open>float\<close> is a finite number, an infinity or NaN. Only comparisons and
  selections are applied to confidences, so a finite float is modelled by the real
  number it denotes. \<open>min(a, b)\<close> returns \<open>a\<close> unless \<open>b < a\<close>, \<open>max(a, b)\<close> returns
  \<open>a\<close> unless \<open>b > a\<close>; every comparison with NaN is false.
\<close>

datatype pyfloat = Fin real | PInf | NInf | NaN

fun py_lt :: "pyfloat \<Rightarrow> pyfloat \<Rightarrow> bool" where
  "py_lt (Fin x) (Fin y) = (x < y)"
| "py_lt (Fin x) PInf = True"
| "py_lt NInf (Fin y) = True"
| "py_lt NInf PInf = True"
| "py_lt _ _ = False"

fun py_ge :: "pyfloat \<Rightarrow> pyfloat \<Rightarrow> bool" where
  "py_ge (Fin x) (Fin y) = (y \<le> x)"
| "py_ge PInf (Fin y) = True"
| "py_ge PInf PInf = True"
| "py_ge PInf NInf = True"
| "py_ge (Fin x) NInf = True"
| "py_ge NInf NInf = True"
| "py_ge _ _ = False"

definition py_min :: "pyfloat \<Rightarrow> pyfloat \<Rightarrow> pyfloat" where
  "py_min a b = (if py_lt b a then b else a)"

definition py_max :: "pyfloat \<Rightarrow> pyfloat \<Rightarrow> pyfloat" where
  "py_max a b = (if py_lt a b then b else a)"

text \<open>The value of \<open>json.loads\<close>; an object is the list of the items of its \<open>dict\<close>.\<close>

datatype json =
    JNull
  | JBool bool
  | JInt int
  | JFloat pyfloat
  | JStr string
  | JArr "json list"
  | JObj "(string \<times> json) list"

datatype pyexc =
    AttributeError string string
  | OtherException string

definition exc_str :: "pyexc \<Rightarrow> string" where
  "exc_str e =
     (case e of
        AttributeError ty attr \<Rightarrow>
          [CHR 0x27] @ ty @ [CHR 0x27] @ '' object has no attribute '' @ [CHR 0x27] @ attr @ [CHR 0x27]
      | OtherException msg \<Rightarrow> msg)"

fun type_name :: "json \<Rightarrow> string" where
  "type_name JNull = ''NoneType''"
| "type_name (JBool _) = ''bool''"
| "type_name (JInt _) = ''int''"
| "type_name (JFloat _) = ''float''"
| "type_name (JStr _) = ''str''"
| "type_name (JArr _) = ''list''"
| "type_name (JObj _) = ''dict''"

text \<open>Truth value of a Python object, as \<open>or\<close>, \<open>not\<close> and \<open>if\<close> test it.\<close>

fun truthy :: "json \<Rightarrow> bool" where
  "truthy JNull = False"
| "truthy (JBool b) = b"
| "truthy (JInt i) = (i \<noteq> 0)"
| "truthy (JFloat f) = (f \<noteq> Fin 0)"
| "truthy (JStr s) = (s \<noteq> [])"
| "truthy (JArr xs) = (xs \<noteq> [])"
| "truthy (JObj kvs) = (kvs \<noteq> [])"

text \<open>
  \<open>d.get(key, default)\<close>: only a \<open>dict\<close> has the method; a missing key gives the
  default.
\<close>

definition dict_get :: "json \<Rightarrow> string \<Rightarrow> json \<Rightarrow> pyexc + json" where
  "dict_get d key dflt =
     (case d of
        JObj kvs \<Rightarrow> (case map_of kvs key of None \<Rightarrow> Inr dflt | Some v \<Rightarrow> Inr v)
      | _ \<Rightarrow> Inl (AttributeError (type_name d) ''get''))"

text \<open>\<open>(v or "").strip()\<close>: a false value becomes \<open>""\<close>; only a \<open>str\<close> has \<open>strip\<close>.\<close>

definition or_empty_strip :: "json \<Rightarrow> pyexc + string" where
  "or_empty_strip v =
     (if \<not> truthy v then Inr []
      else case v of
             JStr s \<Rightarrow> Inr (py_strip s)
           | _ \<Rightarrow> Inl (AttributeError (type_name v) ''strip''))"

text \<open>
  The argument \<open>_normalize_intent\<close> receives for a parsed \<open>intent\<close> value: a false value
  is replaced by \<open>""\<close> before \<open>strip\<close> is called, any other value must be a \<open>str\<close>.
\<close>

definition intent_arg :: "json \<Rightarrow> pyexc + string option" where
  "intent_arg v =
     (if \<not> truthy v then Inr None
      else case v of
             JStr s \<Rightarrow> Inr (Some s)
           | _ \<Rightarrow> Inl (AttributeError (type_name v) ''strip''))"

text \<open>
  \<open>float(v)\<close>, with \<open>None\<close> for the exceptions that \<open>except Exception\<close> catches at the
  call: a TypeError for \<open>None\<close>, lists and dicts, a ValueError for a string that is not
  a number (the parameter \<open>float_of_str\<close> is Python's parser of float literals), an
  OverflowError for an integer too large for a float.
\<close>

definition py_float :: "(string \<Rightarrow> pyfloat option) \<Rightarrow> json \<Rightarrow> pyfloat option" where
  "py_float float_of_str v =
     (case v of
        JNull \<Rightarrow> None
      | JBool b \<Rightarrow> Some (Fin (if b then 1 else 0))
      | JInt i \<Rightarrow> (if \<bar>i\<bar> < 2 ^ 1024 - 2 ^ 970 then Some (Fin (of_int i)) else None)
      | JFloat f \<Rightarrow> Some f
      | JStr s \<Rightarrow> float_of_str s
      | JArr _ \<Rightarrow> None
      | JObj _ \<Rightarrow> None)"

section \<open>Option matching\<close>

text \<open>
  \<open>lower_map = {o.lower().strip(): o for o in request.options}\<close>. A \<open>dict\<close> keeps a key
  at the position of its first insertion and the value of its last one, which is what
  \<open>AList.update\<close> does on the list of items.
\<close>

definition lower_map :: "string list \<Rightarrow> (string \<times> string) list" where
  "lower_map opts = foldl (\<lambda>m opt. AList.update (py_strip (py_lower opt)) opt m) [] opts"

definition synonym_map :: "(string \<times> string list) list" where
  "synonym_map =
     [ (''male'', [''man'', ''cisgender male'', ''cis male'']),
       (''female'', [''woman'', ''cisgender female'', ''cis female'']),
       (''man'', [''male'', ''cisgender male'', ''cis male'']),
       (''woman'', [''female'', ''cisgender female'', ''cis female'']),
       (''non-binary'', [''nonbinary'', ''genderqueer'', ''gender non-conforming'',
                         ''gender non-binary'', ''non-binary/non-conforming'']),
       (''yes'', [''y'', ''true'', ''i do'', ''authorized'']),
       (''no'', [''n'', ''false'', ''i do not'', ''not authorized'']) ]"

text \<open>\<open>not candidate\<close>: the candidate is \<open>None\<close> or the empty string.\<close>

definition no_candidate :: "string option \<Rightarrow> bool" where
  "no_candidate c = (case c of None \<Rightarrow> True | Some v \<Rightarrow> v = [])"

text \<open>\<open>for syn in synonym_map[ans_lower]: if syn in lower_map: ...; break\<close>\<close>

fun first_synonym :: "string list \<Rightarrow> (string \<times> string) list \<Rightarrow> string option" where
  "first_synonym [] lm = None"
| "first_synonym (syn # syns) lm =
     (case map_of lm syn of Some v \<Rightarrow> Some v | None \<Rightarrow> first_synonym syns lm)"

definition synonym_step :: "string \<Rightarrow> (string \<times> string) list \<Rightarrow> string option \<Rightarrow> string option" where
  "synonym_step raw_answer lm candidate =
     (if no_candidate candidate then
        (let ans_lower = py_strip (py_lower raw_answer) in
         case map_of synonym_map ans_lower of
           None \<Rightarrow> candidate
         | Some syns \<Rightarrow> (case first_synonym syns lm of Some v \<Rightarrow> Some v | None \<Rightarrow> candidate))
      else candidate)"

definition substring_step :: "string \<Rightarrow> (string \<times> string) list \<Rightarrow> string option \<Rightarrow> string option" where
  "substring_step raw_answer lm candidate =
     (if no_candidate candidate then
        (case find (\<lambda>(opt_lower, opt_original).
                      py_in opt_lower (py_lower raw_answer) \<or> py_in (py_lower raw_answer) opt_lower) lm of
           Some (opt_lower, opt_original) \<Rightarrow> Some opt_original
         | None \<Rightarrow> candidate)
      else candidate)"

definition find_candidate :: "string \<Rightarrow> string list \<Rightarrow> string option" where
  "find_candidate raw_answer opts =
     (let lm = lower_map opts;
          candidate = map_of lm (py_strip (py_lower raw_answer))
      in substring_step raw_answer lm (synonym_step raw_answer lm candidate))"

text \<open>
  The block \<open>if request.options and raw_answer not in request.options\<close> of
  \<open>predict_answer\<close>: it returns the answer and the confidence after the block.
\<close>

definition match_options ::
  "string \<Rightarrow> string list option \<Rightarrow> string \<Rightarrow> string \<Rightarrow> pyfloat \<Rightarrow> string \<times> pyfloat" where
  "match_options q opts norm_intent raw_answer conf =
     (case opts of
        Some (o1 # os) \<Rightarrow>
          if raw_answer \<notin> set (o1 # os) then
            (case find_candidate raw_answer (o1 # os) of
               Some (c # cs) \<Rightarrow> (c # cs, conf)
             | _ \<Rightarrow> (repair_answer q opts norm_intent, py_max conf (Fin 0.75)))
          else (raw_answer, conf)
      | _ \<Rightarrow> (raw_answer, conf))"

section \<open>Requests, responses and the collaborators\<close>

record AIRequest =
  question :: string
  options :: "string list option"
  fieldType :: string
  userProfile :: json

record AIResponse =
  answer :: string
  confidence :: pyfloat
  reasoning :: "string option"
  intent :: "string option"
  isNewIntent :: bool
  suggestedIntentName :: "string option"

text \<open>
  One item of \<open>answerMappings\<close> and the match \<open>search_pattern\<close> returns, both Python
  dicts read with \<open>get\<close>: \<open>None\<close> stands for a missing key and for a null value, which
  the code treats alike.
\<close>

record answer_mapping =
  canonicalValue :: "string option"
  variants :: "string list option"
  contextOptions :: "string list option"

record memory_match =
  mm_intent :: "string option"
  mm_answerMappings :: "answer_mapping list option"

record Pattern =
  questionPattern :: string
  pattern_intent :: string
  canonicalKey :: "string option"
  pattern_fieldType :: string
  pattern_confidence :: pyfloat
  source :: string
  answerMappings :: "answer_mapping list option"
  usageCount :: int
  createdAt :: "string option"
  lastUsed :: "string option"

text \<open>
  What the inference client does when \<open>predict_answer\<close> reaches it: an exception before
  \<open>invoke_model\<close> is called, an exception from the call or from reading its response
  (up to the code-fence stripping), or the text of the model's message.
\<close>

datatype bedrock_outcome =
    ClientRaises pyexc
  | InvokeRaises pyexc
  | ContentText string

text \<open>
  The environment and the collaborators of one request. \<open>json_loads\<close> is \<open>json.loads\<close>
  with \<open>None\<close> for a JSONDecodeError. \<open>search_pattern\<close> returns \<open>None\<close> for a false
  result (\<open>None\<close> or an empty dict). \<open>PATTERN_MEMORY_CONFIDENCE\<close> is the constant of
  the configuration module, which is not part of the sources at hand.
\<close>

record world =
  AWS_ACCESS_KEY_ID :: "string option"
  AWS_SECRET_ACCESS_KEY :: "string option"
  bedrock :: bedrock_outcome
  json_loads :: "string \<Rightarrow> json option"
  float_of_str :: "string \<Rightarrow> pyfloat option"
  search_pattern :: "string \<Rightarrow> pyexc + memory_match option"
  PATTERN_MEMORY_CONFIDENCE :: pyfloat

datatype event =
    InvokeModel
  | SearchPattern string
  | SavePattern Pattern "string option"

section \<open>The predictor\<close>

definition CREDENTIALS_MISSING :: AIResponse where
  "CREDENTIALS_MISSING =
     \<lparr> answer = [], confidence = Fin 0, reasoning = Some ''AWS Credentials Missing'',
       intent = Some ''unknown'', isNewIntent = False, suggestedIntentName = None \<rparr>"

definition service_error :: "pyexc \<Rightarrow> AIResponse" where
  "service_error e =
     \<lparr> answer = [], confidence = Fin 0, reasoning = Some (''AWS Error: '' @ exc_str e),
       intent = Some ''unknown'', isNewIntent = False, suggestedIntentName = None \<rparr>"

text \<open>
  \<open>conf = float(raw_conf)\<close> with 0.75 when the conversion fails, then
  \<open>max(0.70, min(conf, 0.99))\<close>.
\<close>

definition clamp_confidence :: "(string \<Rightarrow> pyfloat option) \<Rightarrow> json \<Rightarrow> pyfloat" where
  "clamp_confidence fos raw_conf =
     (let conf = (case py_float fos raw_conf of Some f \<Rightarrow> f | None \<Rightarrow> Fin 0.75)
      in py_max (Fin 0.70) (py_min conf (Fin 0.99)))"

text \<open>The \<open>except json.JSONDecodeError\<close> branch.\<close>

definition format_fallback :: "AIRequest \<Rightarrow> AIResponse" where
  "format_fallback req =
     (let norm_intent = normalize_intent None (question req);
          ans = repair_answer (question req) (options req) norm_intent
      in \<lparr> answer = ans, confidence = Fin 0.78,
           reasoning = Some ''Fallback response due to formatting issue.'',
           intent = Some norm_intent, isNewIntent = False, suggestedIntentName = None \<rparr>)"

text \<open>
  The code after a successful \<open>json.loads\<close>, from \<open>raw_answer = ...\<close> to the final
  \<open>return\<close>; \<open>Inl\<close> is an exception raised on the way.
\<close>

definition post_process :: "world \<Rightarrow> AIRequest \<Rightarrow> json \<Rightarrow> pyexc + AIResponse" where
  "post_process w req ai_data =
     (case dict_get ai_data ''answer'' JNull of Inl e \<Rightarrow> Inl e | Inr a \<Rightarrow>
      case or_empty_strip a of Inl e \<Rightarrow> Inl e | Inr raw_answer \<Rightarrow>
      case dict_get ai_data ''confidence'' (JFloat (Fin 0.75)) of Inl e \<Rightarrow> Inl e | Inr raw_conf \<Rightarrow>
      case dict_get ai_data ''reasoning'' JNull of Inl e \<Rightarrow> Inl e | Inr r \<Rightarrow>
      case or_empty_strip r of Inl e \<Rightarrow> Inl e | Inr raw_reason \<Rightarrow>
      case dict_get ai_data ''intent'' JNull of Inl e \<Rightarrow> Inl e | Inr raw_intent \<Rightarrow>
      case intent_arg raw_intent of Inl e \<Rightarrow> Inl e | Inr ia \<Rightarrow>
        (let norm_intent = normalize_intent ia (question req);
             conf = clamp_confidence (float_of_str w) raw_conf
         in if is_forbidden_answer raw_answer then
              Inr \<lparr> answer = repair_answer (question req) (options req) norm_intent,
                    confidence = py_max conf (Fin 0.75),
                    reasoning = Some ''Repaired answer to avoid placeholders.'',
                    intent = Some norm_intent, isNewIntent = False, suggestedIntentName = None \<rparr>
            else
              (let (ans, conf1) = match_options (question req) (options req) norm_intent raw_answer conf;
                   final_intent = (if norm_intent \<notin> set ALLOWED_INTENTS then ''unknown'' else norm_intent)
               in Inr \<lparr> answer = ans, confidence = conf1,
                        reasoning = Some (if raw_reason \<noteq> [] then raw_reason
                                          else ''Answer chosen to maximize hiring chances.''),
                        intent = Some final_intent, isNewIntent = False,
                        suggestedIntentName = None \<rparr>)))"

text \<open>\<open>not aws_access_key\<close>: the variable is unset or empty.\<close>

definition unset :: "string option \<Rightarrow> bool" where
  "unset v = (case v of None \<Rightarrow> True | Some s \<Rightarrow> s = [])"

text \<open>
  The body of the \<open>try\<close> of \<open>predict_answer\<close>, with the list of calls made to the
  inference endpoint.
\<close>

definition predict_answer_body :: "world \<Rightarrow> AIRequest \<Rightarrow> (pyexc + AIResponse) \<times> event list" where
  "predict_answer_body w req =
     (if unset (AWS_ACCESS_KEY_ID w) \<or> unset (AWS_SECRET_ACCESS_KEY w)
      then (Inr CREDENTIALS_MISSING, [])
      else case bedrock w of
             ClientRaises e \<Rightarrow> (Inl e, [])
           | InvokeRaises e \<Rightarrow> (Inl e, [InvokeModel])
           | ContentText content_text \<Rightarrow>
               (let clean_text = py_strip (py_replace ''```'' [] (py_replace ''```json'' [] content_text))
                in case json_loads w clean_text of
                     None \<Rightarrow> (Inr (format_fallback req), [InvokeModel])
                   | Some ai_data \<Rightarrow> (post_process w req ai_data, [InvokeModel])))"

definition predict_answer :: "world \<Rightarrow> AIRequest \<Rightarrow> AIResponse \<times> event list" where
  "predict_answer w req =
     (case predict_answer_body w req of
        (Inl e, tr) \<Rightarrow> (service_error e, tr)
      | (Inr resp, tr) \<Rightarrow> (resp, tr))"

section \<open>The \<open>/predict\<close> endpoint\<close>

text \<open>
  \<open>request.userEmail\<close>: the class \<open>AIRequest\<close> declares the fields \<open>question\<close>,
  \<open>options\<close>, \<open>fieldType\<close> and \<open>userProfile\<close> and no other, so reading the attribute
  raises an AttributeError.
\<close>

definition request_userEmail :: "AIRequest \<Rightarrow> pyexc + string option" where
  "request_userEmail req = Inl (AttributeError ''AIRequest'' ''userEmail'')"

text \<open>The answer the endpoint reads from a match of the pattern memory.\<close>

definition memory_answer :: "memory_match \<Rightarrow> string option" where
  "memory_answer m =
     (case mm_answerMappings m of
        Some (m0 # _) \<Rightarrow>
          (case variants m0 of
             Some (v0 # _) \<Rightarrow> Some v0
           | _ \<Rightarrow> canonicalValue m0)
      | _ \<Rightarrow> Some [])"

definition learned_pattern :: "AIRequest \<Rightarrow> AIResponse \<Rightarrow> Pattern" where
  "learned_pattern req ai_response =
     \<lparr> questionPattern = py_strip (py_lower (question req)),
       pattern_intent = (case intent ai_response of Some i \<Rightarrow> i | None \<Rightarrow> []),
       canonicalKey = None,
       pattern_fieldType = fieldType req,
       pattern_confidence = confidence ai_response,
       source = ''AI'',
       answerMappings =
         Some [\<lparr> canonicalValue = Some (answer ai_response),
                 variants = Some [answer ai_response],
                 contextOptions = Some (case options req of Some os \<Rightarrow> os | None \<Rightarrow> []) \<rparr>],
       usageCount = 1, createdAt = None, lastUsed = None \<rparr>"

text \<open>
  Step 3 of \<open>predict\<close>: the events of the \<open>try\<close> block that saves the learned pattern.
  The arguments of \<open>save_pattern\<close> are evaluated before the call; an exception raised in
  the block, by the evaluation or by the call, is swallowed by \<open>except Exception: pass\<close>,
  and the value \<open>save_pattern\<close> returns is not used.
\<close>

definition save_learned :: "AIRequest \<Rightarrow> AIResponse \<Rightarrow> event list" where
  "save_learned req ai_response =
     (if answer ai_response \<noteq> [] \<and> py_ge (confidence ai_response) (Fin 0.70) then
        (let pattern = learned_pattern req ai_response in
         case request_userEmail req of
           Inl e \<Rightarrow> []
         | Inr email \<Rightarrow> [SavePattern pattern email])
      else [])"

definition predict :: "world \<Rightarrow> AIRequest \<Rightarrow> (pyexc + AIResponse) \<times> event list" where
  "predict w req =
     (case search_pattern w (question req) of
        Inl e \<Rightarrow> (Inl e, [SearchPattern (question req)])
      | Inr found \<Rightarrow>
          (case (case found of
                   None \<Rightarrow> None
                 | Some m \<Rightarrow>
                     (case memory_answer m of
                        Some (c # cs) \<Rightarrow>
                          Some \<lparr> answer = c # cs, confidence = PATTERN_MEMORY_CONFIDENCE w,
                                 reasoning = Some ''Retrieved from Pattern Memory'',
                                 intent = mm_intent m, isNewIntent = False,
                                 suggestedIntentName = None \<rparr>
                      | _ \<Rightarrow> None)) of
             Some hit \<Rightarrow> (Inr hit, [SearchPattern (question req)])
           | None \<Rightarrow>
               (let (ai_response0, tr) = predict_answer w req;
                    ai_response = (if unset (intent ai_response0)
                                   then ai_response0\<lparr>intent := Some ''unknown''\<rparr>
                                   else ai_response0)
                in (Inr ai_response,
                    SearchPattern (question req) # tr @ save_learned req ai_response))))"

section \<open>A request and its collaborators, for concrete runs\<close>

text \<open>
  The work-authorization question with the options Yes and No; credentials are set, the
  pattern memory misses, and the model answers with a JSON object that \<open>json.loads\<close>
  reads as \<open>{"answer": "authorized", "confidence": 0.7}\<close>.
\<close>

definition authorized_request :: AIRequest where
  "authorized_request =
     \<lparr> question = ''Are you authorized to work in the US?'',
       options = Some [''Yes'', ''No''], fieldType = ''radio'', userProfile = JObj [] \<rparr>"

definition authorized_data :: json where
  "authorized_data = JObj [(''answer'', JStr ''authorized''), (''confidence'', JFloat (Fin 0.7))]"

definition authorized_world :: world where
  "authorized_world =
     \<lparr> AWS_ACCESS_KEY_ID = Some ''key'', AWS_SECRET_ACCESS_KEY = Some ''secret'',
       bedrock = ContentText ''```json (the reply) ```'',
       json_loads = (\<lambda>_. Some authorized_data),
       float_of_str = (\<lambda>_. None),
       search_pattern = (\<lambda>_. Inr None),
       PATTERN_MEMORY_CONFIDENCE = Fin 0.95 \<rparr>"

section \<open>Facts about the detector and the intent tables\<close>

text \<open>
  Every compiled pattern begins with a literal backslash, so the detector flags a text
  only if it is empty after stripping or contains a backslash.
\<close>

lemma of_char_lower_bs: "py_lower_char x = bs \<Longrightarrow> x = bs"
proof -
  assume a: "py_lower_char x = bs"
  let ?n = "of_char x :: nat"
  show ?thesis
  proof (cases "(65 \<le> ?n \<and> ?n \<le> 90) \<or> (192 \<le> ?n \<and> ?n \<le> 222 \<and> ?n \<noteq> 215)")
    case True
    then have "py_lower_char x = char_of (?n + 32)"
      by (simp add: py_lower_char_def Let_def)
    with a have "of_char (char_of (?n + 32) :: char) = (of_char bs :: nat)" by simp
    then have "(?n + 32) mod 256 = 92" by (simp add: bs_def)
    moreover from True have "?n + 32 < 256" by auto
    ultimately have "?n = 60" by simp
    with True show ?thesis by simp
  next
    case False
    then have "py_lower_char x = x" by (auto simp: py_lower_char_def Let_def)
    with a show ?thesis by simp
  qed
qed

lemma lower_bs: "py_lower_char bs = bs"
  by (simp add: py_lower_char_def bs_def)

lemma ci_eq_bs: "ci_eq bs x \<longleftrightarrow> x = bs"
  using of_char_lower_bs[of x] by (auto simp: ci_eq_def lower_bs)

lemma search_from_no_bs: "bs \<notin> set s \<Longrightarrow> \<not> search_from (Lit bs # r) prev s"
  by (induction s arbitrary: prev) (auto simp: ci_eq_bs)

lemma patterns_start_bs:
  "pat \<in> set FORBIDDEN_ANSWER_PATTERNS \<Longrightarrow> \<exists>r. re_compile pat = Lit bs # r"
  by (auto simp: FORBIDDEN_ANSWER_PATTERNS_def re_compile_def bs_def)

lemma set_py_strip: "set (py_strip s) \<subseteq> set s"
  unfolding py_strip_def by (metis set_rev set_dropWhileD subsetI)

lemma bs_in_lower: "bs \<in> set (py_lower s) \<Longrightarrow> bs \<in> set s"
  by (auto simp: py_lower_def dest: of_char_lower_bs[OF sym])

lemma forbidden_cases: "is_forbidden_answer a \<Longrightarrow> py_strip a = [] \<or> bs \<in> set a"
proof -
  assume f: "is_forbidden_answer a"
  show ?thesis
  proof (cases "py_strip a = []")
    case True then show ?thesis by simp
  next
    case False
    then have ne: "py_lower (py_strip a) \<noteq> []" by (simp add: py_lower_def)
    with f obtain pat where p: "pat \<in> set FORBIDDEN_ANSWER_PATTERNS"
      and m: "re_search pat (py_lower (py_strip a))"
      by (auto simp: is_forbidden_answer_def Let_def list_ex_iff)
    from patterns_start_bs[OF p] obtain r where "re_compile pat = Lit bs # r" by blast
    with m have "search_from (Lit bs # r) None (py_lower (py_strip a))"
      by (simp add: re_search_def)
    then have "bs \<in> set (py_lower (py_strip a))" using search_from_no_bs by blast
    then have "bs \<in> set (py_strip a)" by (rule bs_in_lower)
    then show ?thesis using set_py_strip by blast
  qed
qed

lemma not_forbidden_nonempty: "\<not> is_forbidden_answer a \<Longrightarrow> a \<noteq> []"
  by (auto simp: is_forbidden_answer_def py_strip_def py_lower_def)


lemma no_bs_not_forbidden:
  assumes "s \<noteq> []" and "\<not> py_isspace (hd s)" and "bs \<notin> set s"
  shows "\<not> is_forbidden_answer s"
proof -
  from assms(1) obtain c cs where s: "s = c # cs" by (cases s) auto
  with assms(2) have "py_strip s \<noteq> []" by (simp add: py_strip_def)
  with assms(3) show ?thesis using forbidden_cases by blast
qed

lemma salary_fallback_ok: "\<not> is_forbidden_answer SALARY_FALLBACK"
  by (rule no_bs_not_forbidden) (simp_all add: SALARY_FALLBACK_def py_isspace_def bs_def)

lemma additional_fallback_ok: "\<not> is_forbidden_answer ADDITIONAL_FALLBACK"
  by (rule no_bs_not_forbidden) (simp_all add: ADDITIONAL_FALLBACK_def py_isspace_def bs_def)

lemma whyfit_fallback_ok: "\<not> is_forbidden_answer WHYFIT_FALLBACK"
  by (rule no_bs_not_forbidden) (simp_all add: WHYFIT_FALLBACK_def py_isspace_def bs_def)

lemma generic_fallback_ok: "\<not> is_forbidden_answer GENERIC_FALLBACK"
  by (rule no_bs_not_forbidden) (simp_all add: GENERIC_FALLBACK_def py_isspace_def bs_def)

lemma normalization_table_allowed:
  "map_of INTENT_NORMALIZATION k = Some v \<Longrightarrow> v \<in> set ALLOWED_INTENTS"
  by (auto simp: INTENT_NORMALIZATION_def ALLOWED_INTENTS_def split: if_splits)

lemma inferred_intents_allowed:
  "''personal.desiredSalary'' \<in> set ALLOWED_INTENTS"
  "''personal.additionalInfo'' \<in> set ALLOWED_INTENTS"
  "''experience.whyFit'' \<in> set ALLOWED_INTENTS"
  "''unknown'' \<in> set ALLOWED_INTENTS"
  by (simp_all add: ALLOWED_INTENTS_def)

section \<open>The intent normalizer\<close>

text \<open>
  Claim C8. For every raw intent, absent (\<open>None\<close>) or any string, and every question
  text, the value of \<open>_normalize_intent\<close> is a member of the allowed intent set. The
  function reads its two arguments and the static tables only and returns a value: the
  model has no state for it to change.
\<close>

theorem normalize_intent_allowed:
  "normalize_intent raw_intent q \<in> set ALLOWED_INTENTS"
  unfolding normalize_intent_def Let_def
  by (auto split: option.splits dest: normalization_table_allowed simp: inferred_intents_allowed)

theorem normalize_intent_allowed_witness:
  "normalize_intent (Some ''Why-Fit'') ''Tell us more'' = ''experience.whyFit''
   \<and> normalize_intent (Some ''Why-Fit'') ''Tell us more'' \<in> set ALLOWED_INTENTS"
proof -
  have e: "normalize_intent (Some ''Why-Fit'') ''Tell us more'' = ''experience.whyFit''"
    by code_simp
  from e normalize_intent_allowed [of "Some ''Why-Fit''" "''Tell us more''"]
  show ?thesis by blast
qed

end
